theory Spec2Isabelle
  imports Complex_Main
begin

section \<open>Numbers\<close>

text \<open>
  The engine computes with JavaScript numbers. Finite values are modelled as reals
  (rounding, overflow and the sign of zero are abstracted away); the values that a
  division by zero produces are kept, because \<open>update\<close> divides by the duration of the
  running interpolation and stores the result in the transition's progress, from where
  it reaches the vertex positions.
\<close>

datatype jsnum = Num real | PosInf | NegInf | NaN

text \<open>\<open>a / b\<close> on two finite numbers.\<close>

definition js_div :: "real \<Rightarrow> real \<Rightarrow> jsnum" where
  "js_div a b =
     (if b \<noteq> 0 then Num (a / b)
      else if 0 < a then PosInf
      else if a < 0 then NegInf
      else NaN)"

fun js_neg :: "jsnum \<Rightarrow> jsnum" where
  "js_neg (Num a) = Num (- a)"
| "js_neg PosInf = NegInf"
| "js_neg NegInf = PosInf"
| "js_neg NaN = NaN"

fun js_add :: "jsnum \<Rightarrow> jsnum \<Rightarrow> jsnum" where
  "js_add (Num a) (Num b) = Num (a + b)"
| "js_add NaN _ = NaN"
| "js_add _ NaN = NaN"
| "js_add PosInf NegInf = NaN"
| "js_add NegInf PosInf = NaN"
| "js_add PosInf _ = PosInf"
| "js_add _ PosInf = PosInf"
| "js_add NegInf _ = NegInf"
| "js_add _ NegInf = NegInf"

definition js_sub :: "jsnum \<Rightarrow> jsnum \<Rightarrow> jsnum" where
  "js_sub a b = js_add a (js_neg b)"

text \<open>The sign of a number: \<open>None\<close> for NaN, otherwise \<open>-1\<close>, \<open>0\<close> or \<open>1\<close>.\<close>

fun js_sign :: "jsnum \<Rightarrow> int option" where
  "js_sign (Num a) = Some (if a < 0 then - 1 else if a = 0 then 0 else 1)"
| "js_sign PosInf = Some 1"
| "js_sign NegInf = Some (- 1)"
| "js_sign NaN = None"

fun js_mul :: "jsnum \<Rightarrow> jsnum \<Rightarrow> jsnum" where
  "js_mul (Num a) (Num b) = Num (a * b)"
| "js_mul a b =
     (case (js_sign a, js_sign b) of
        (Some x, Some y) \<Rightarrow>
          (if x * y = 0 then NaN else if 0 < x * y then PosInf else NegInf)
      | _ \<Rightarrow> NaN)"

text \<open>\<open>Math.min(a, b)\<close>: NaN when either argument is NaN.\<close>

fun js_min :: "jsnum \<Rightarrow> jsnum \<Rightarrow> jsnum" where
  "js_min (Num a) (Num b) = Num (min a b)"
| "js_min NaN _ = NaN"
| "js_min _ NaN = NaN"
| "js_min NegInf _ = NegInf"
| "js_min _ NegInf = NegInf"
| "js_min PosInf b = b"
| "js_min a PosInf = a"

text \<open>\<open>a >= b\<close>: false when either side is NaN.\<close>

fun js_ge :: "jsnum \<Rightarrow> jsnum \<Rightarrow> bool" where
  "js_ge (Num a) (Num b) = (b \<le> a)"
| "js_ge NaN _ = False"
| "js_ge _ NaN = False"
| "js_ge PosInf _ = True"
| "js_ge _ NegInf = True"
| "js_ge NegInf _ = False"
| "js_ge _ PosInf = False"

text \<open>
  \<open>THREE.MathUtils.lerp(x, y, t)\<close> of the rendering library, which is not part of the
  repository: \<open>(1 - t) * x + t * y\<close>.
\<close>

definition lerp :: "jsnum \<Rightarrow> jsnum \<Rightarrow> jsnum \<Rightarrow> jsnum" where
  "lerp x y t = js_add (js_mul (js_sub (Num 1) t) x) (js_mul t y)"

text \<open>
  What a call through the profile table can return: a number, or a string that is not
  the text of a number. \<open>to_number\<close> is the conversion an arithmetic operator applies.
\<close>

datatype js_value = Number jsnum | Text

fun to_number :: "js_value \<Rightarrow> jsnum" where
  "to_number (Number x) = x"
| "to_number Text = NaN"

text \<open>\<open>v += m\<close> with a number \<open>m\<close>: numeric addition, or concatenation onto a string.\<close>

fun js_plus :: "js_value \<Rightarrow> jsnum \<Rightarrow> js_value" where
  "js_plus (Number x) m = Number (js_add x m)"
| "js_plus Text m = Text"

section \<open>The shape profile library (shapeMorphEngine.js)\<close>

text \<open>
  \<open>ShapeMorphEngine.shapeSDFs\<close> is an object literal with six function-valued
  properties. Each function is named by a constructor of \<open>shape\<close>; \<open>sdf\<close> gives its body.
\<close>

datatype shape = Sphere | Cube | Cone | Cylinder | Torus | Parabola

fun sdf :: "shape \<Rightarrow> real \<Rightarrow> real \<Rightarrow> real \<Rightarrow> real" where
  "sdf Sphere theta phi radius = radius"
| "sdf Cube theta phi radius = radius * max \<bar>sin theta\<bar> \<bar>cos phi\<bar>"
| "sdf Cone theta phi radius = radius * (1 - phi / pi)"
| "sdf Cylinder theta phi radius = radius * sin phi"
| "sdf Torus theta phi radius = (let minorRadius = radius * 0.3 in radius + minorRadius * cos phi)"
| "sdf Parabola theta phi radius = radius * (1 - (2 * phi / pi - 1) ^ 2)"

text \<open>The own properties of the table, by key.\<close>

definition shapeSDFs_own :: "string \<Rightarrow> shape option" where
  "shapeSDFs_own name =
     (if name = ''Sphere'' then Some Sphere
      else if name = ''Cube'' then Some Cube
      else if name = ''Cone'' then Some Cone
      else if name = ''Cylinder'' then Some Cylinder
      else if name = ''Torus'' then Some Torus
      else if name = ''Parabola'' then Some Parabola
      else None)"

text \<open>
  A property read \<open>obj[name]\<close> on an object literal also finds the members the object
  inherits from \<open>Object.prototype\<close>. All of them are truthy values, and none is a
  shape profile.
\<close>

definition object_prototype_keys :: "string list" where
  "object_prototype_keys =
     [''constructor'', ''hasOwnProperty'', ''isPrototypeOf'', ''propertyIsEnumerable'',
      ''toLocaleString'', ''toString'', ''valueOf'', ''__proto__'',
      ''__defineGetter__'', ''__defineSetter__'', ''__lookupGetter__'', ''__lookupSetter__'']"

datatype sdf_value = SdfFunction shape | PrototypeMember string | Undefined

text \<open>\<open>ShapeMorphEngine.shapeSDFs[name]\<close>.\<close>

definition shapeSDFs :: "string \<Rightarrow> sdf_value" where
  "shapeSDFs name =
     (case shapeSDFs_own name of
        Some f \<Rightarrow> SdfFunction f
      | None \<Rightarrow> if name \<in> set object_prototype_keys then PrototypeMember name else Undefined)"

fun truthy :: "sdf_value \<Rightarrow> bool" where
  "truthy Undefined = False"
| "truthy _ = True"

text \<open>
  The second table of \<open>getShapeParameters\<close>, an object literal with the keys
  \<open>Sphere\<close> and \<open>Cube\<close>, read with the same kind of property access.
\<close>

datatype morph_params = Complexity real | EdgeSharpness real

datatype params_value = MorphParams morph_params | ParamsPrototypeMember string | ParamsUndefined

definition morphParams_table :: "string \<Rightarrow> params_value" where
  "morphParams_table name =
     (if name = ''Sphere'' then MorphParams (Complexity 1.0)
      else if name = ''Cube'' then MorphParams (EdgeSharpness 0.8)
      else if name \<in> set object_prototype_keys then ParamsPrototypeMember name
      else ParamsUndefined)"

record shape_parameters =
  sdfFunction :: sdf_value
  morphParams :: params_value

text \<open>\<open>getShapeParameters(shapeName)\<close>: \<open>shapeSDFs[shapeName] || shapeSDFs.Sphere\<close>.\<close>

definition getShapeParameters :: "string \<Rightarrow> shape_parameters" where
  "getShapeParameters shapeName =
     \<lparr> sdfFunction =
         (if truthy (shapeSDFs shapeName) then shapeSDFs shapeName else shapeSDFs ''Sphere''),
       morphParams = morphParams_table shapeName \<rparr>"

section \<open>The geometry engine (sphericalCustomGeometry.js)\<close>

subsection \<open>Data\<close>

record property_cell =
  anisotropy :: real
  sphericity :: real
  rugosity :: real
  gaussianCurvature :: real
  meanCurvature :: real
  torsion :: real
  convexity :: real
  smoothness :: real
  edgeSharpness :: real
  fractalDimension :: real
  surfaceGradient :: real
  normalVariation :: real
  axisSymmetry :: real
  rotationSymmetry :: real
  translationSymmetry :: real
  mirrorSymmetry :: real
  radialSymmetry :: real
  eulerCharacteristic :: real
  localConnectivity :: real
  boundaryCurvature :: real
  tangentPlaneVariance :: real
  densityGradient :: real
  rigidity :: real

text \<open>\<open>config.shapeInterpolation\<close> when it is not \<open>null\<close>.\<close>

record shape_interpolation =
  from_shape :: string
  to_shape :: string
  duration :: real

record config =
  radius :: real
  polygonCount :: nat
  gridWidth :: nat
  gridHeight :: nat
  morphSpeed :: real
  dynamicEvolution :: bool
  currentShape :: string
  shapeInterpolation :: "shape_interpolation option"

text \<open>\<open>scalarField.shapeTransition\<close>; \<open>from\<close> and \<open>to\<close> are \<open>null\<close> until the first morph.\<close>

record shape_transition =
  transition_from :: "string option"
  transition_to :: "string option"
  progress :: jsnum

record scalar_field =
  time :: real
  shapeTransition :: shape_transition

text \<open>
  The nine attribute arrays of the buffer geometry, as the flat lists handed to
  \<open>setAttribute\<close> (the conversion to 32-bit floats is not modelled).
\<close>

record buffers =
  positions :: "jsnum list"
  masses :: "real list"
  charges :: "real list"
  symmetryIndices :: "int list"
  lightProperties :: "real list"
  valencies :: "int list"
  volumes :: "real list"
  densities :: "real list"
  orientations :: "real list"

datatype log_level = Error | Info | Debug

text \<open>
  The geometry object. \<open>attributes\<close> is \<open>None\<close> until the first successful generation;
  \<open>logged\<close> lists the calls made to the logger, oldest first (the logger itself drops
  the debug calls at its default level). The member \<open>morphEngine\<close>, which no method
  reads, is left out.
\<close>

record engine =
  config :: config
  propertyMatrix :: "property_cell list list"
  scalarField :: scalar_field
  attributes :: "buffers option"
  logged :: "(log_level \<times> string) list"

definition log_call :: "log_level \<Rightarrow> string \<Rightarrow> engine \<Rightarrow> engine" where
  "log_call level message s = s\<lparr>logged := logged s @ [(level, message)]\<rparr>"

text \<open>The exceptions the engine can raise; all are \<open>TypeError\<close>s.\<close>

datatype js_error =
    NotAFunction       \<comment> \<open>a call of a value that is not a function\<close>
  | ReadOfUndefined    \<comment> \<open>a property read on \<open>undefined\<close>\<close>
  | ThisUndefined      \<comment> \<open>a built-in method converting its \<open>this\<close> value \<open>undefined\<close> to an object\<close>

subsection \<open>The property matrix\<close>

text \<open>
  \<open>generatePropertyCell\<close> draws two values from \<open>Math.random()\<close>, first the anisotropy,
  then the rugosity; they are parameters here.
\<close>

definition generatePropertyCell :: "real \<Rightarrow> real \<Rightarrow> property_cell" where
  "generatePropertyCell random1 random2 =
     \<lparr> anisotropy = random1, sphericity = 1.0, rugosity = random2,
       gaussianCurvature = 0, meanCurvature = 0, torsion = 0,
       convexity = 1, smoothness = 1, edgeSharpness = 0.5,
       fractalDimension = 1, surfaceGradient = 0, normalVariation = 0,
       axisSymmetry = 1, rotationSymmetry = 1, translationSymmetry = 1,
       mirrorSymmetry = 1, radialSymmetry = 1,
       eulerCharacteristic = 0, localConnectivity = 1, boundaryCurvature = 0,
       tangentPlaneVariance = 0, densityGradient = 1, rigidity = 1 \<rparr>"

text \<open>
  \<open>initializePropertyMatrix\<close>: \<open>gridWidth\<close> rows of \<open>gridHeight\<close> cells, generated row by
  row. \<open>random k\<close> is the value of the \<open>k\<close>-th call of \<open>Math.random()\<close>.
\<close>

definition initializePropertyMatrix :: "(nat \<Rightarrow> real) \<Rightarrow> nat \<Rightarrow> nat \<Rightarrow> property_cell list list" where
  "initializePropertyMatrix random w h =
     map (\<lambda>x. map (\<lambda>y. generatePropertyCell (random (2 * (x * h + y)))
                                             (random (2 * (x * h + y) + 1)))
                  [0..<h])
         [0..<w]"

text \<open>An array read \<open>xs[k]\<close> with an integer index: \<open>undefined\<close> outside the array.\<close>

definition js_index :: "'a list \<Rightarrow> int \<Rightarrow> 'a option" where
  "js_index xs k = (if 0 \<le> k \<and> nat k < length xs then Some (xs ! nat k) else None)"

subsection \<open>The field evaluator\<close>

text \<open>
  A member of \<open>Object.prototype\<close> called as a plain function, with \<open>this\<close> undefined and
  three numbers as arguments. \<open>constructor\<close> is \<open>Object\<close>, which wraps its first argument
  in a Number object (in arithmetic, that number); \<open>isPrototypeOf\<close> returns \<open>false\<close> for
  an argument that is no object (in arithmetic, 0); \<open>toString\<close> returns the string
  \<open>[object Undefined]\<close>; \<open>__proto__\<close> is an accessor whose value, the prototype object,
  is not callable; every other member first converts \<open>this\<close> to an object, which raises.
\<close>

definition call_prototype_member :: "string \<Rightarrow> real \<Rightarrow> js_error + js_value" where
  "call_prototype_member m theta =
     (if m = ''constructor'' then Inr (Number (Num theta))
      else if m = ''isPrototypeOf'' then Inr (Number (Num 0))
      else if m = ''toString'' then Inr Text
      else if m = ''__proto__'' then Inl NotAFunction
      else Inl ThisUndefined)"

text \<open>A call \<open>shapeSDFs[name](theta, phi, radius)\<close>.\<close>

definition call_sdf :: "string \<Rightarrow> real \<Rightarrow> real \<Rightarrow> real \<Rightarrow> js_error + js_value" where
  "call_sdf name theta phi r =
     (case shapeSDFs name of
        SdfFunction f \<Rightarrow> Inr (Number (Num (sdf f theta phi r)))
      | PrototypeMember m \<Rightarrow> call_prototype_member m theta
      | Undefined \<Rightarrow> Inl NotAFunction)"

text \<open>
  \<open>combinedSDF(theta, phi, props, time)\<close>. \<open>props\<close> is \<open>None\<close> when the matrix read gave
  \<open>undefined\<close>; its first property read then raises.
\<close>

definition combinedSDF :: "engine \<Rightarrow> real \<Rightarrow> real \<Rightarrow> property_cell option \<Rightarrow> real \<Rightarrow> js_error + js_value" where
  "combinedSDF s theta phi props t =
     (case call_sdf (currentShape (config s)) theta phi (radius (config s)) of
        Inl e \<Rightarrow> Inl e
      | Inr current \<Rightarrow>
          (case (case shapeInterpolation (config s) of
                   None \<Rightarrow> Inr current
                 | Some si \<Rightarrow>
                     (case call_sdf (from_shape si) theta phi (radius (config s)) of
                        Inl e \<Rightarrow> Inl e
                      | Inr fromValue \<Rightarrow>
                          (case call_sdf (to_shape si) theta phi (radius (config s)) of
                             Inl e \<Rightarrow> Inl e
                           | Inr toValue \<Rightarrow>
                               Inr (Number (lerp (to_number fromValue) (to_number toValue)
                                              (progress (shapeTransition (scalarField s))))))))
           of
             Inl e \<Rightarrow> Inl e
           | Inr baseSDF \<Rightarrow>
               (case props of
                  None \<Rightarrow> Inl ReadOfUndefined
                | Some p \<Rightarrow>
                    Inr (js_plus baseSDF
                           (Num (sin (theta * rugosity p + t) * anisotropy p * 10 +
                                 cos (phi * sphericity p + t) * convexity p * 5))))))"

subsection \<open>Regeneration of the attribute buffer\<close>

definition empty_buffers :: buffers where
  "empty_buffers =
     \<lparr> positions = [], masses = [], charges = [], symmetryIndices = [], lightProperties = [],
       valencies = [], volumes = [], densities = [], orientations = [] \<rparr>"

definition vertex_theta :: "engine \<Rightarrow> nat \<Rightarrow> real" where
  "vertex_theta s i = (real i / real (polygonCount (config s))) * pi * 2"

definition vertex_phi :: "engine \<Rightarrow> nat \<Rightarrow> real" where
  "vertex_phi s i = (real i / real (polygonCount (config s))) * pi"

text \<open>The two indices used for the matrix read of vertex \<open>i\<close>, after \<open>Math.min\<close>.\<close>

definition lookupX :: "engine \<Rightarrow> nat \<Rightarrow> int" where
  "lookupX s i =
     (let gridX = \<lfloor>(vertex_theta s i / (pi * 2)) * real (gridWidth (config s))\<rfloor>
      in min gridX (int (gridWidth (config s)) - 1))"

definition lookupY :: "engine \<Rightarrow> nat \<Rightarrow> int" where
  "lookupY s i =
     (let gridY = \<lfloor>(vertex_phi s i / pi) * real (gridHeight (config s))\<rfloor>
      in min gridY (int (gridHeight (config s)) - 1))"

text \<open>
  \<open>propertyMatrix[..][..]\<close>: a missing row raises at the second index, a missing cell
  gives \<open>undefined\<close>.
\<close>

definition select_props :: "engine \<Rightarrow> nat \<Rightarrow> js_error + property_cell option" where
  "select_props s i =
     (case js_index (propertyMatrix s) (lookupX s i) of
        None \<Rightarrow> Inl ReadOfUndefined
      | Some row \<Rightarrow> Inr (js_index row (lookupY s i)))"

text \<open>The body of the loop for vertex \<open>i\<close>: the pushes onto the nine local arrays.\<close>

definition push_vertex :: "engine \<Rightarrow> nat \<Rightarrow> buffers \<Rightarrow> js_error + buffers" where
  "push_vertex s i b =
     (let theta = vertex_theta s i; phi = vertex_phi s i in
      case select_props s i of
        Inl e \<Rightarrow> Inl e
      | Inr props \<Rightarrow>
          (case combinedSDF s theta phi props (time (scalarField s)) of
             Inl e \<Rightarrow> Inl e
           | Inr dynamicRadius \<Rightarrow>
               (case props of
                  None \<Rightarrow> Inl ReadOfUndefined
                | Some p \<Rightarrow>
                    (let x = js_mul (js_mul (to_number dynamicRadius) (Num (sin phi))) (Num (cos theta));
                         y = js_mul (js_mul (to_number dynamicRadius) (Num (sin phi))) (Num (sin theta));
                         z = js_mul (to_number dynamicRadius) (Num (cos phi))
                     in Inr (b\<lparr> positions := positions b @ [x, y, z],
                                masses := masses b @ [10 + sphericity p * 5],
                                charges := charges b @ [(rugosity p - 0.5) * 2],
                                symmetryIndices := symmetryIndices b @ [\<lfloor>axisSymmetry p * 8\<rfloor>],
                                lightProperties := lightProperties b @
                                   [0.3 + smoothness p * 0.5, 0.2 + edgeSharpness p * 0.3],
                                valencies := valencies b @ [\<lfloor>localConnectivity p * 4\<rfloor>],
                                volumes := volumes b @ [10 + densityGradient p * 10],
                                densities := densities b @ [0.2 + rigidity p * 0.3],
                                orientations := orientations b @ [0, 1, 0] \<rparr>)))))"

text \<open>The loop over the vertex indices; it stops at the first exception.\<close>

fun sweep :: "engine \<Rightarrow> nat list \<Rightarrow> buffers \<Rightarrow> js_error + buffers" where
  "sweep s [] b = Inr b"
| "sweep s (i # rest) b =
     (case push_vertex s i b of
        Inl e \<Rightarrow> Inl e
      | Inr b' \<Rightarrow> sweep s rest b')"

text \<open>
  \<open>generateScalarFieldGeometry()\<close>. The result is the exception that leaves the method,
  if any, and the object afterwards: the \<open>catch\<close> block logs and rethrows.
\<close>

definition generateScalarFieldGeometry :: "engine \<Rightarrow> js_error option \<times> engine" where
  "generateScalarFieldGeometry s =
     (case sweep s [0..<polygonCount (config s)] empty_buffers of
        Inr b \<Rightarrow>
          (None, log_call Info ''SphericalCustomGeometry Generated'' (s\<lparr>attributes := Some b\<rparr>))
      | Inl e \<Rightarrow>
          (Some e, log_call Error ''SphericalCustomGeometry Generation Failed'' s))"

subsection \<open>Construction\<close>

text \<open>
  The third constructor argument, an object whose properties may be absent. A default
  written \<open>config.x || d\<close> replaces an absent and a falsy value alike. The polygon count
  and the grid dimensions are natural numbers, as the interface declares them.
\<close>

record options =
  opt_gridWidth :: "nat option"
  opt_gridHeight :: "nat option"
  opt_morphSpeed :: "real option"
  opt_dynamicEvolution :: "bool option"
  opt_currentShape :: "string option"

definition init_config :: "real option \<Rightarrow> nat option \<Rightarrow> options \<Rightarrow> config" where
  "init_config r n opts =
     \<lparr> radius = (case r of None \<Rightarrow> 100 | Some x \<Rightarrow> x),
       polygonCount = (case n of None \<Rightarrow> 500 | Some k \<Rightarrow> k),
       gridWidth = (case opt_gridWidth opts of None \<Rightarrow> 200 | Some w \<Rightarrow> if w = 0 then 200 else w),
       gridHeight = (case opt_gridHeight opts of None \<Rightarrow> 200 | Some h \<Rightarrow> if h = 0 then 200 else h),
       morphSpeed = (case opt_morphSpeed opts of None \<Rightarrow> 0.5 | Some m \<Rightarrow> if m = 0 then 0.5 else m),
       dynamicEvolution = (case opt_dynamicEvolution opts of None \<Rightarrow> True | Some d \<Rightarrow> d \<or> True),
       currentShape =
         (case opt_currentShape opts of None \<Rightarrow> ''Sphere'' | Some c \<Rightarrow> if c = [] then ''Sphere'' else c),
       shapeInterpolation = None \<rparr>"

text \<open>The object just before the constructor's call of \<open>generateScalarFieldGeometry\<close>.\<close>

definition init_engine :: "real option \<Rightarrow> nat option \<Rightarrow> options \<Rightarrow> (nat \<Rightarrow> real) \<Rightarrow> engine" where
  "init_engine r n opts random =
     (let c = init_config r n opts in
      \<lparr> config = c,
        propertyMatrix = initializePropertyMatrix random (gridWidth c) (gridHeight c),
        scalarField =
          \<lparr> time = 0,
            shapeTransition = \<lparr> transition_from = None, transition_to = None, progress = Num 0 \<rparr> \<rparr>,
        attributes = None,
        logged = [] \<rparr>)"

text \<open>
  \<open>new SphericalCustomGeometry(radius, polygonCount, config)\<close>: an exception of the first
  generation leaves the constructor, and no object exists.
\<close>

definition new_geometry :: "real option \<Rightarrow> nat option \<Rightarrow> options \<Rightarrow> (nat \<Rightarrow> real) \<Rightarrow> js_error + engine" where
  "new_geometry r n opts random =
     (case generateScalarFieldGeometry (init_engine r n opts random) of
        (None, s) \<Rightarrow> Inr s
      | (Some e, s) \<Rightarrow> Inl e)"

subsection \<open>Morph requests and the frame update\<close>

text \<open>\<open>morphToShape(targetShape, duration = 1.0)\<close>.\<close>

definition morphToShape :: "string \<Rightarrow> real option \<Rightarrow> engine \<Rightarrow> engine" where
  "morphToShape targetShape d s =
     (let duration = (case d of None \<Rightarrow> 1.0 | Some x \<Rightarrow> x);
          current = currentShape (config s)
      in if \<not> truthy (shapeSDFs targetShape)
         then log_call Error ''Invalid Shape Morphing Target'' s
         else
           log_call Info ''Shape Morphing Initiated''
             (s\<lparr> config := (config s)
                    \<lparr> shapeInterpolation :=
                        Some \<lparr> from_shape = current, to_shape = targetShape, duration = duration \<rparr>,
                      currentShape := targetShape \<rparr>,
                 scalarField := (scalarField s)
                    \<lparr> shapeTransition :=
                        \<lparr> transition_from = Some current, transition_to = Some targetShape,
                          progress = Num 0 \<rparr> \<rparr> \<rparr>))"

text \<open>The part of \<open>update\<close> that handles a running interpolation.\<close>

definition tick :: "real \<Rightarrow> engine \<Rightarrow> engine" where
  "tick deltaTime s =
     (case shapeInterpolation (config s) of
        None \<Rightarrow> s
      | Some si \<Rightarrow>
          (let tr = shapeTransition (scalarField s);
               p = js_min (js_add (progress tr) (js_div deltaTime (duration si))) (Num 1);
               s1 = s\<lparr>scalarField := (scalarField s)\<lparr>shapeTransition := tr\<lparr>progress := p\<rparr>\<rparr>\<rparr>
           in if js_ge p (Num 1)
              then log_call Info ''Shape Morphing Complete''
                     (s1\<lparr>config := (config s1)\<lparr>shapeInterpolation := None\<rparr>\<rparr>)
              else s1))"

text \<open>
  \<open>update(deltaTime)\<close>. As for the generation, the result pairs the exception that
  leaves the method, if any, with the object afterwards.
\<close>

definition update :: "real \<Rightarrow> engine \<Rightarrow> js_error option \<times> engine" where
  "update deltaTime s =
     (if dynamicEvolution (config s)
      then
        (let s1 = s\<lparr>scalarField := (scalarField s)
                      \<lparr>time := time (scalarField s) + deltaTime * morphSpeed (config s)\<rparr>\<rparr>;
             s2 = tick deltaTime s1
         in case generateScalarFieldGeometry s2 of
              (Some e, s3) \<Rightarrow> (Some e, s3)
            | (None, s3) \<Rightarrow> (None, log_call Debug ''Geometry Updated'' s3))
      else (None, s))"

section \<open>Drivers and reference objects\<close>

text \<open>
  The external driver issues morph requests and frame updates. A caller that catches an
  exception of \<open>update\<close> keeps the object, so a run continues with the object as the
  failed call left it.
\<close>

datatype operation = MorphToShape string "real option" | Update real

fun apply_operation :: "operation \<Rightarrow> engine \<Rightarrow> engine" where
  "apply_operation (MorphToShape targetShape d) s = morphToShape targetShape d s"
| "apply_operation (Update deltaTime) s = snd (update deltaTime s)"

fun run :: "operation list \<Rightarrow> engine \<Rightarrow> engine" where
  "run [] s = s"
| "run (x # xs) s = run xs (apply_operation x s)"

text \<open>Requests with a positive duration (or the default one) and frames that do not run backwards.\<close>

fun admissible :: "operation \<Rightarrow> bool" where
  "admissible (MorphToShape targetShape d) = (case d of None \<Rightarrow> True | Some x \<Rightarrow> 0 < x)"
| "admissible (Update deltaTime) = (0 \<le> deltaTime)"

fun in_unit_interval :: "jsnum \<Rightarrow> bool" where
  "in_unit_interval (Num p) = (0 \<le> p \<and> p \<le> 1)"
| "in_unit_interval _ = False"

text \<open>
  A valid transition state: the progress lies in \<open>[0,1]\<close>, and an interpolation that is
  still registered has not reached 1.
\<close>

definition transition_valid :: "engine \<Rightarrow> bool" where
  "transition_valid s =
     (in_unit_interval (progress (shapeTransition (scalarField s))) \<and>
      (case shapeInterpolation (config s) of
         None \<Rightarrow> True
       | Some si \<Rightarrow> \<not> js_ge (progress (shapeTransition (scalarField s))) (Num 1)))"

text \<open>The matrix has the dimensions the configuration names.\<close>

definition matrix_matches_grid :: "engine \<Rightarrow> bool" where
  "matrix_matches_grid s =
     (length (propertyMatrix s) = gridWidth (config s) \<and>
      list_all (\<lambda>row. length row = gridHeight (config s)) (propertyMatrix s))"

text \<open>
  A small geometry for concrete runs: \<open>new SphericalCustomGeometry(100, 1, {gridWidth: 1,
  gridHeight: 1})\<close> with every random draw equal to \<open>1/2\<close>.
\<close>

definition demo_random :: "nat \<Rightarrow> real" where
  "demo_random k = 1 / 2"

definition demo_options :: options where
  "demo_options =
     \<lparr> opt_gridWidth = Some 1, opt_gridHeight = Some 1, opt_morphSpeed = None,
       opt_dynamicEvolution = None, opt_currentShape = None \<rparr>"

definition demo_engine :: engine where
  "demo_engine =
     snd (generateScalarFieldGeometry (init_engine (Some 100) (Some 1) demo_options demo_random))"

definition demo_buffers :: buffers where
  "demo_buffers =
     \<lparr> positions = [Num 0, Num 0, Num 105], masses = [15], charges = [0],
       symmetryIndices = [8], lightProperties = [0.8, 0.35], valencies = [4],
       volumes = [20], densities = [0.5], orientations = [0, 1, 0] \<rparr>"

text \<open>
  The reference geometry after its public \<open>config.currentShape\<close> was set, from outside, to a
  name the profile table does not have.
\<close>

definition broken_engine :: engine where
  "broken_engine = demo_engine\<lparr>config := (config demo_engine)\<lparr>currentShape := ''Blob''\<rparr>\<rparr>"

text \<open>A geometry of four vertices over a grid of three by two cells.\<close>

definition grid_options :: options where
  "grid_options =
     \<lparr> opt_gridWidth = Some 3, opt_gridHeight = Some 2, opt_morphSpeed = None,
       opt_dynamicEvolution = None, opt_currentShape = None \<rparr>"

definition grid_engine :: engine where
  "grid_engine =
     snd (generateScalarFieldGeometry (init_engine (Some 100) (Some 4) grid_options demo_random))"

text \<open>The reference geometry, constructed with \<open>dynamicEvolution: false\<close>.\<close>

definition flag_off_options :: options where
  "flag_off_options =
     \<lparr> opt_gridWidth = Some 1, opt_gridHeight = Some 1, opt_morphSpeed = None,
       opt_dynamicEvolution = Some False, opt_currentShape = None \<rparr>"

definition flag_off_engine :: engine where
  "flag_off_engine =
     snd (generateScalarFieldGeometry (init_engine (Some 100) (Some 1) flag_off_options demo_random))"

section \<open>Basic facts\<close>

lemma shapeSDFs_keys:
  "shapeSDFs ''Sphere'' = SdfFunction Sphere"
  "shapeSDFs ''Cube'' = SdfFunction Cube"
  "shapeSDFs ''Cone'' = SdfFunction Cone"
  "shapeSDFs ''Cylinder'' = SdfFunction Cylinder"
  "shapeSDFs ''Torus'' = SdfFunction Torus"
  "shapeSDFs ''Parabola'' = SdfFunction Parabola"
  by (simp_all add: shapeSDFs_def shapeSDFs_own_def)

lemma shapeSDFs_own_keys:
  "shapeSDFs_own ''Sphere'' = Some Sphere"
  "shapeSDFs_own ''Cube'' = Some Cube"
  by (simp_all add: shapeSDFs_own_def)

lemma shapeSDFs_of_own:
  "shapeSDFs_own name = Some f \<Longrightarrow> shapeSDFs name = SdfFunction f"
  by (simp add: shapeSDFs_def)

lemma call_sdf_own:
  "shapeSDFs_own name = Some f \<Longrightarrow>
   call_sdf name theta phi r = Inr (Number (Num (sdf f theta phi r)))"
  by (simp add: call_sdf_def shapeSDFs_def)

lemma generate_config [simp]:
  "config (snd (generateScalarFieldGeometry s)) = config s"
  by (simp add: generateScalarFieldGeometry_def log_call_def split: sum.splits)

lemma generate_scalarField [simp]:
  "scalarField (snd (generateScalarFieldGeometry s)) = scalarField s"
  by (simp add: generateScalarFieldGeometry_def log_call_def split: sum.splits)

lemma generate_propertyMatrix [simp]:
  "propertyMatrix (snd (generateScalarFieldGeometry s)) = propertyMatrix s"
  by (simp add: generateScalarFieldGeometry_def log_call_def split: sum.splits)

lemma generate_result:
  assumes "generateScalarFieldGeometry s = (r, s')"
  shows "config s' = config s" and "scalarField s' = scalarField s"
    and "propertyMatrix s' = propertyMatrix s"
  using assms generate_config [of s] generate_scalarField [of s] generate_propertyMatrix [of s]
  by simp_all

lemma log_call_fields [simp]:
  "config (log_call l m s) = config s"
  "scalarField (log_call l m s) = scalarField s"
  "propertyMatrix (log_call l m s) = propertyMatrix s"
  "attributes (log_call l m s) = attributes s"
  "logged (log_call l m s) = logged s @ [(l, m)]"
  by (simp_all add: log_call_def)

text \<open>What \<open>update\<close> leaves in the configuration and the scalar field is decided before the rebuild.\<close>

lemma update_config:
  "dynamicEvolution (config s) \<Longrightarrow>
   config (snd (update dt s)) =
     config (tick dt (s\<lparr>scalarField := (scalarField s)
                          \<lparr>time := time (scalarField s) + dt * morphSpeed (config s)\<rparr>\<rparr>))"
  by (auto simp: update_def Let_def split: prod.splits option.splits dest: generate_result)

lemma update_scalarField:
  "dynamicEvolution (config s) \<Longrightarrow>
   scalarField (snd (update dt s)) =
     scalarField (tick dt (s\<lparr>scalarField := (scalarField s)
                          \<lparr>time := time (scalarField s) + dt * morphSpeed (config s)\<rparr>\<rparr>))"
  by (auto simp: update_def Let_def split: prod.splits option.splits dest: generate_result)

lemma tick_time [simp]: "time (scalarField (tick dt s)) = time (scalarField s)"
  by (simp add: tick_def Let_def split: option.splits)

lemma update_time:
  "dynamicEvolution (config s) \<Longrightarrow>
   time (scalarField (snd (update dt s))) = time (scalarField s) + dt * morphSpeed (config s)"
  by (simp add: update_scalarField)

lemma init_config_dynamicEvolution: "dynamicEvolution (init_config r n opts)"
  by (simp add: init_config_def split: option.splits)

lemma lerp_Num: "lerp (Num x) (Num y) (Num p) = Num ((1 - p) * x + p * y)"
  by (simp add: lerp_def js_sub_def)

lemma morphToShape_accepts:
  "truthy (shapeSDFs targetShape) \<Longrightarrow>
   morphToShape targetShape d s =
     log_call Info ''Shape Morphing Initiated''
       (s\<lparr> config := (config s)
              \<lparr> shapeInterpolation :=
                  Some \<lparr> from_shape = currentShape (config s), to_shape = targetShape,
                         duration = (case d of None \<Rightarrow> 1 | Some x \<Rightarrow> x) \<rparr>,
                currentShape := targetShape \<rparr>,
           scalarField := (scalarField s)
              \<lparr> shapeTransition :=
                  \<lparr> transition_from = Some (currentShape (config s)),
                    transition_to = Some targetShape, progress = Num 0 \<rparr> \<rparr> \<rparr>)"
  by (simp add: morphToShape_def Let_def split: option.splits)

lemma morphToShape_rejects:
  "\<not> truthy (shapeSDFs targetShape) \<Longrightarrow>
   morphToShape targetShape d s = log_call Error ''Invalid Shape Morphing Target'' s"
  by (simp add: morphToShape_def Let_def)

subsection \<open>The transition step\<close>

lemma tick_idle: "shapeInterpolation (config s) = None \<Longrightarrow> tick dt s = s"
  by (simp add: tick_def)

lemma tick_transitioning:
  fixes dt :: real
  assumes "shapeInterpolation (config s) = Some si"
  defines "p \<equiv> js_min (js_add (progress (shapeTransition (scalarField s)))
                               (js_div dt (duration si))) (Num 1)"
  shows "progress (shapeTransition (scalarField (tick dt s))) = p"
    and "shapeInterpolation (config (tick dt s)) = (if js_ge p (Num 1) then None else Some si)"
    and "currentShape (config (tick dt s)) = currentShape (config s)"
  using assms by (simp_all add: tick_def Let_def)

lemma tick_currentShape [simp]: "currentShape (config (tick dt s)) = currentShape (config s)"
  by (simp add: tick_def Let_def split: option.splits)

lemma update_progress:
  fixes dt :: real
  assumes "dynamicEvolution (config s)" and "shapeInterpolation (config s) = Some si"
  defines "p \<equiv> js_min (js_add (progress (shapeTransition (scalarField s)))
                               (js_div dt (duration si))) (Num 1)"
  shows "progress (shapeTransition (scalarField (snd (update dt s)))) = p"
    and "shapeInterpolation (config (snd (update dt s))) = (if js_ge p (Num 1) then None else Some si)"
    and "currentShape (config (snd (update dt s))) = currentShape (config s)"
  using assms by (simp_all add: update_config update_scalarField tick_transitioning)

lemma tick_dynamicEvolution [simp]:
  "dynamicEvolution (config (tick dt s)) = dynamicEvolution (config s)"
  by (simp add: tick_def Let_def split: option.splits)

lemma update_dynamicEvolution [simp]:
  "dynamicEvolution (config (snd (update dt s))) = dynamicEvolution (config s)"
proof (cases "dynamicEvolution (config s)")
  case True
  then show ?thesis by (simp add: update_config)
next
  case False
  then show ?thesis by (simp add: update_def)
qed

subsection \<open>Runs\<close>

text \<open>The invariant carried through a run: a valid transition whose registered duration is positive.\<close>

lemma transition_valid_cong:
  "config s' = config s \<Longrightarrow> shapeTransition (scalarField s') = shapeTransition (scalarField s) \<Longrightarrow>
   transition_valid s' = transition_valid s"
  by (simp add: transition_valid_def cong: option.case_cong)

lemma transition_valid_morph:
  assumes "transition_valid s \<and> (\<forall>si. shapeInterpolation (config s) = Some si \<longrightarrow> 0 < duration si)"
    and "admissible (MorphToShape targetShape d)"
  shows "transition_valid (morphToShape targetShape d s) \<and>
         (\<forall>si. shapeInterpolation (config (morphToShape targetShape d s)) = Some si \<longrightarrow> 0 < duration si)"
proof (cases "truthy (shapeSDFs targetShape)")
  case True
  with assms(2) show ?thesis
    by (auto simp: morphToShape_accepts transition_valid_def split: option.splits)
next
  case False
  have "transition_valid (log_call Error ''Invalid Shape Morphing Target'' s) = transition_valid s"
    by (rule transition_valid_cong) simp_all
  with False assms(1) show ?thesis
    by (simp add: morphToShape_rejects)
qed

lemma transition_valid_tick:
  assumes "transition_valid s \<and> (\<forall>si. shapeInterpolation (config s) = Some si \<longrightarrow> 0 < duration si)"
    and "0 \<le> dt"
  shows "transition_valid (tick dt s) \<and>
         (\<forall>si. shapeInterpolation (config (tick dt s)) = Some si \<longrightarrow> 0 < duration si)"
proof (cases "shapeInterpolation (config s)")
  case None
  with assms(1) show ?thesis by (simp add: tick_idle)
next
  case (Some si)
  from assms(1) Some have pos: "0 < duration si" by simp
  from assms(1) obtain p where p: "progress (shapeTransition (scalarField s)) = Num p"
    "0 \<le> p" "p \<le> 1"
    by (cases "progress (shapeTransition (scalarField s))") (simp_all add: transition_valid_def)
  have q: "0 \<le> dt / duration si" using pos assms(2) by simp
  have new: "progress (shapeTransition (scalarField (tick dt s))) = Num (min (p + dt / duration si) 1)"
    using tick_transitioning(1) [OF Some, of dt] p(1) pos by (simp add: js_div_def)
  have reg: "shapeInterpolation (config (tick dt s)) =
               (if 1 \<le> p + dt / duration si then None else Some si)"
    using tick_transitioning(2) [OF Some, of dt] p(1) pos by (simp add: js_div_def)
  show ?thesis
    using new reg p(2) q pos by (auto simp: transition_valid_def min_def)
qed

lemma transition_valid_update:
  assumes "transition_valid s \<and> (\<forall>si. shapeInterpolation (config s) = Some si \<longrightarrow> 0 < duration si)"
    and "0 \<le> dt"
  shows "transition_valid (snd (update dt s)) \<and>
         (\<forall>si. shapeInterpolation (config (snd (update dt s))) = Some si \<longrightarrow> 0 < duration si)"
proof (cases "dynamicEvolution (config s)")
  case False
  with assms(1) show ?thesis by (simp add: update_def)
next
  case True
  let ?s1 = "s\<lparr>scalarField := (scalarField s)
                  \<lparr>time := time (scalarField s) + dt * morphSpeed (config s)\<rparr>\<rparr>"
  have "transition_valid ?s1 \<and> (\<forall>si. shapeInterpolation (config ?s1) = Some si \<longrightarrow> 0 < duration si)"
  proof -
    have "transition_valid ?s1 = transition_valid s"
      by (rule transition_valid_cong) simp_all
    with assms(1) show ?thesis by simp
  qed
  from transition_valid_tick [OF this assms(2)]
  have t: "transition_valid (tick dt ?s1) \<and>
           (\<forall>si. shapeInterpolation (config (tick dt ?s1)) = Some si \<longrightarrow> 0 < duration si)" .
  have "transition_valid (snd (update dt s)) = transition_valid (tick dt ?s1)"
    by (rule transition_valid_cong) (simp_all add: update_config [OF True] update_scalarField [OF True])
  with t show ?thesis
    by (simp add: update_config [OF True])
qed

lemma transition_valid_run:
  assumes "transition_valid s \<and> (\<forall>si. shapeInterpolation (config s) = Some si \<longrightarrow> 0 < duration si)"
    and "list_all admissible ops"
  shows "transition_valid (run ops s) \<and>
         (\<forall>si. shapeInterpolation (config (run ops s)) = Some si \<longrightarrow> 0 < duration si)"
  using assms
proof (induction ops arbitrary: s)
  case Nil
  then show ?case by simp
next
  case (Cons x xs)
  from Cons.prems(2) have ax: "admissible x" and axs: "list_all admissible xs" by simp_all
  have "transition_valid (apply_operation x s) \<and>
        (\<forall>si. shapeInterpolation (config (apply_operation x s)) = Some si \<longrightarrow> 0 < duration si)"
  proof (cases x)
    case (MorphToShape targetShape d)
    with transition_valid_morph [OF Cons.prems(1)] ax show ?thesis by simp
  next
    case (Update dt)
    with transition_valid_update [OF Cons.prems(1)] ax show ?thesis by simp
  qed
  from Cons.IH [OF this axs] show ?case by simp
qed

lemma new_geometry_fields:
  assumes "new_geometry r n opts random = Inr s0"
  shows "config s0 = init_config r n opts"
    and "scalarField s0 =
           \<lparr> time = 0,
             shapeTransition = \<lparr> transition_from = None, transition_to = None, progress = Num 0 \<rparr> \<rparr>"
    and "propertyMatrix s0 =
           initializePropertyMatrix random (gridWidth (init_config r n opts))
             (gridHeight (init_config r n opts))"
proof -
  obtain e s where g: "generateScalarFieldGeometry (init_engine r n opts random) = (e, s)"
    by (cases "generateScalarFieldGeometry (init_engine r n opts random)")
  with assms have "s0 = s" by (simp add: new_geometry_def split: option.splits)
  with generate_result [OF g] show "config s0 = init_config r n opts"
    and "scalarField s0 =
           \<lparr> time = 0,
             shapeTransition = \<lparr> transition_from = None, transition_to = None, progress = Num 0 \<rparr> \<rparr>"
    and "propertyMatrix s0 =
           initializePropertyMatrix random (gridWidth (init_config r n opts))
             (gridHeight (init_config r n opts))"
    by (simp_all add: init_engine_def Let_def)
qed

lemma init_config_idle: "shapeInterpolation (init_config r n opts) = None"
  by (simp add: init_config_def)

text \<open>The guard of \<open>update\<close> works; the constructor never produces a geometry it would stop.\<close>

lemma update_not_evolving:
  "\<not> dynamicEvolution (config s) \<Longrightarrow> update dt s = (None, s)"
  by (simp add: update_def)

lemma new_geometry_evolving:
  "new_geometry r n opts random = Inr s0 \<Longrightarrow> dynamicEvolution (config s0)"
  using new_geometry_fields(1) [of r n opts random s0]
  by (simp add: init_config_dynamicEvolution)

text \<open>
  An interpolation of duration 0 is completed by the next update with a positive
  \<open>deltaTime\<close>: the quotient is infinite and \<open>Math.min\<close> cuts it to 1.
\<close>

lemma zero_duration_completes:
  assumes "dynamicEvolution (config s)" and "shapeInterpolation (config s) = Some si"
    and "duration si = 0" and "0 < dt"
    and "progress (shapeTransition (scalarField s)) = Num p"
  shows "progress (shapeTransition (scalarField (snd (update dt s)))) = Num 1"
    and "shapeInterpolation (config (snd (update dt s))) = None"
  using update_progress(1,2) [OF assms(1,2), of dt] assms(3,4,5)
  by (simp_all add: js_div_def)

subsection \<open>Grid coordinates\<close>

lemma js_index_in_range:
  "0 \<le> k \<Longrightarrow> k \<le> int (length xs) - 1 \<Longrightarrow> js_index xs k = Some (xs ! nat k)"
  by (auto simp: js_index_def)

lemma grid_fraction:
  "n \<noteq> 0 \<Longrightarrow> (real i / real n) * pi * 2 / (pi * 2) = real i / real n"
  "n \<noteq> 0 \<Longrightarrow> (real i / real n) * pi / pi = real i / real n"
  by simp_all

lemma floor_scaled_fraction:
  assumes "i < n" and "1 \<le> w"
  shows "0 \<le> \<lfloor>real i / real n * real w\<rfloor>" and "\<lfloor>real i / real n * real w\<rfloor> \<le> int w - 1"
proof -
  show "0 \<le> \<lfloor>real i / real n * real w\<rfloor>" by simp
  have "real i / real n < 1" using assms(1) by simp
  then have "real i / real n * real w < 1 * real w"
    using assms(2) by (intro mult_strict_right_mono) simp_all
  then have "real i / real n * real w < of_int (int w - 1) + 1" by simp
  then show "\<lfloor>real i / real n * real w\<rfloor> \<le> int w - 1"
    by (simp only: floor_le_iff)
qed

lemma initializePropertyMatrix_dims:
  "length (initializePropertyMatrix random w h) = w"
  "list_all (\<lambda>row. length row = h) (initializePropertyMatrix random w h)"
  by (simp_all add: initializePropertyMatrix_def list_all_iff)

lemma init_config_grid:
  "1 \<le> gridWidth (init_config r n opts)" "1 \<le> gridHeight (init_config r n opts)"
  by (simp_all add: init_config_def split: option.splits)

lemma new_geometry_matrix:
  assumes "new_geometry r n opts random = Inr s0"
  shows "matrix_matches_grid s0" "1 \<le> gridWidth (config s0)" "1 \<le> gridHeight (config s0)"
  using new_geometry_fields [OF assms] init_config_grid [of r n opts]
  by (simp_all add: matrix_matches_grid_def initializePropertyMatrix_dims)

subsection \<open>The sweep\<close>

lemma sweep_append:
  "sweep s (xs @ ys) b = (case sweep s xs b of Inl e \<Rightarrow> Inl e | Inr b' \<Rightarrow> sweep s ys b')"
  by (induction xs arbitrary: b) (simp_all split: sum.splits)

lemma sweep_failure_vertex:
  "sweep s xs b = Inl e \<Longrightarrow>
   \<exists>pre i post b'. xs = pre @ i # post \<and> sweep s pre b = Inr b' \<and> push_vertex s i b' = Inl e"
proof (induction xs arbitrary: b)
  case Nil
  then show ?case by simp
next
  case (Cons x xs)
  show ?case
  proof (cases "push_vertex s x b")
    case (Inl e')
    with Cons.prems have "e' = e" by simp
    with Inl have "x # xs = [] @ x # xs \<and> sweep s [] b = Inr b \<and> push_vertex s x b = Inl e"
      by simp
    then show ?thesis by blast
  next
    case (Inr b1)
    with Cons.prems have "sweep s xs b1 = Inl e" by simp
    from Cons.IH [OF this] obtain pre i post b'
      where "xs = pre @ i # post" "sweep s pre b1 = Inr b'" "push_vertex s i b' = Inl e"
      by blast
    with Inr have "x # xs = (x # pre) @ i # post \<and> sweep s (x # pre) b = Inr b' \<and>
        push_vertex s i b' = Inl e"
      by simp
    then show ?thesis by blast
  qed
qed

lemma generate_failure:
  "sweep s [0..<polygonCount (config s)] empty_buffers = Inl e \<Longrightarrow>
   generateScalarFieldGeometry s =
     (Some e, log_call Error ''SphericalCustomGeometry Generation Failed'' s)"
  by (simp add: generateScalarFieldGeometry_def)

lemma generate_success:
  "sweep s [0..<polygonCount (config s)] empty_buffers = Inr b \<Longrightarrow>
   generateScalarFieldGeometry s =
     (None, log_call Info ''SphericalCustomGeometry Generated'' (s\<lparr>attributes := Some b\<rparr>))"
  by (simp add: generateScalarFieldGeometry_def)

text \<open>The sweep reads the configuration, the matrix and the scalar field, and nothing else.\<close>

lemma vertex_inputs:
  assumes "config s1 = config s2" and "propertyMatrix s1 = propertyMatrix s2"
    and "scalarField s1 = scalarField s2"
  shows "vertex_theta s1 i = vertex_theta s2 i" and "vertex_phi s1 i = vertex_phi s2 i"
    and "select_props s1 i = select_props s2 i"
    and "combinedSDF s1 theta phi props t = combinedSDF s2 theta phi props t"
  unfolding vertex_theta_def vertex_phi_def select_props_def lookupX_def lookupY_def
    combinedSDF_def assms
  by (rule refl)+

lemma push_vertex_inputs:
  assumes "config s1 = config s2" and "propertyMatrix s1 = propertyMatrix s2"
    and "scalarField s1 = scalarField s2"
  shows "push_vertex s1 i b = push_vertex s2 i b"
  unfolding push_vertex_def vertex_inputs [OF assms] assms(3) ..

lemma sweep_inputs:
  assumes "config s1 = config s2" and "propertyMatrix s1 = propertyMatrix s2"
    and "scalarField s1 = scalarField s2"
  shows "sweep s1 xs b = sweep s2 xs b"
proof (induction xs arbitrary: b)
  case Nil
  show ?case by simp
next
  case (Cons x xs)
  show ?case
    by (cases "push_vertex s2 x b") (simp_all add: push_vertex_inputs [OF assms] Cons.IH)
qed

lemma generate_inputs:
  assumes "config s1 = config s2" and "propertyMatrix s1 = propertyMatrix s2"
    and "scalarField s1 = scalarField s2"
  shows "fst (generateScalarFieldGeometry s1) = fst (generateScalarFieldGeometry s2)"
    and "fst (generateScalarFieldGeometry s1) = None \<Longrightarrow>
         attributes (snd (generateScalarFieldGeometry s1)) =
           attributes (snd (generateScalarFieldGeometry s2))"
  using sweep_inputs [OF assms, of "[0..<polygonCount (config s2)]" empty_buffers] assms(1)
  by (simp_all add: generateScalarFieldGeometry_def split: sum.splits)

text \<open>An exception of the rebuild leaves \<open>update\<close> with the buffer as it was.\<close>

lemma update_failure_keeps_buffer:
  assumes "dynamicEvolution (config s)"
    and "fst (update dt s) = Some e"
  shows "attributes (snd (update dt s)) = attributes s"
proof -
  let ?s2 = "tick dt (s\<lparr>scalarField := (scalarField s)
                         \<lparr>time := time (scalarField s) + dt * morphSpeed (config s)\<rparr>\<rparr>)"
  have a: "attributes ?s2 = attributes s"
    by (simp add: tick_def Let_def split: option.splits)
  show ?thesis
  proof (cases "sweep ?s2 [0..<polygonCount (config ?s2)] empty_buffers")
    case (Inl e')
    then show ?thesis using assms(1) a by (simp add: update_def Let_def generate_failure)
  next
    case (Inr b)
    then show ?thesis using assms by (simp add: update_def Let_def generate_success)
  qed
qed

subsection \<open>The reference geometry\<close>

lemma demo_config:
  "config demo_engine =
     \<lparr> radius = 100, polygonCount = 1, gridWidth = 1, gridHeight = 1, morphSpeed = 0.5,
       dynamicEvolution = True, currentShape = ''Sphere'', shapeInterpolation = None \<rparr>"
  by (simp add: demo_engine_def init_engine_def init_config_def demo_options_def Let_def)

lemma demo_scalarField:
  "scalarField demo_engine =
     \<lparr> time = 0,
       shapeTransition = \<lparr> transition_from = None, transition_to = None, progress = Num 0 \<rparr> \<rparr>"
  by (simp add: demo_engine_def init_engine_def Let_def)

lemma demo_matrix:
  "propertyMatrix demo_engine = [[generatePropertyCell (1 / 2) (1 / 2)]]"
  by (simp add: demo_engine_def init_engine_def init_config_def demo_options_def
      initializePropertyMatrix_def demo_random_def Let_def)

lemma demo_sweep:
  "sweep (init_engine (Some 100) (Some 1) demo_options demo_random) [0..<1] empty_buffers
     = Inr demo_buffers"
  by (simp add: push_vertex_def select_props_def lookupX_def lookupY_def vertex_theta_def
      vertex_phi_def init_engine_def init_config_def demo_options_def
      initializePropertyMatrix_def js_index_def combinedSDF_def call_sdf_def shapeSDFs_keys
      generatePropertyCell_def empty_buffers_def Let_def demo_buffers_def demo_random_def)

lemma demo_attributes: "attributes demo_engine = Some demo_buffers"
  using demo_sweep
  by (simp add: demo_engine_def generateScalarFieldGeometry_def log_call_def
      init_engine_def init_config_def demo_options_def Let_def)

lemma demo_constructed:
  "new_geometry (Some 100) (Some 1) demo_options demo_random = Inr demo_engine"
  using demo_sweep
  by (simp add: new_geometry_def demo_engine_def generateScalarFieldGeometry_def log_call_def
      init_engine_def init_config_def demo_options_def Let_def)

lemma broken_fields:
  "polygonCount (config broken_engine) = 1" "gridWidth (config broken_engine) = 1"
  "gridHeight (config broken_engine) = 1" "currentShape (config broken_engine) = ''Blob''"
  "propertyMatrix broken_engine = [[generatePropertyCell (1 / 2) (1 / 2)]]"
  "attributes broken_engine = Some demo_buffers"
  by (simp_all add: broken_engine_def demo_config demo_matrix demo_attributes)

lemma demo_regenerate:
  "sweep demo_engine [0..<polygonCount (config demo_engine)] empty_buffers = Inr demo_buffers"
proof -
  have "sweep demo_engine [0..<1] empty_buffers =
        sweep (init_engine (Some 100) (Some 1) demo_options demo_random) [0..<1] empty_buffers"
    by (rule sweep_inputs) (simp_all add: demo_engine_def)
  then show ?thesis using demo_sweep by (simp add: demo_config)
qed

section \<open>The shape profiles\<close>

text \<open>
  Claim C5. For all angles and every base radius, the six registered profiles compute
  their table formulas: Sphere \<open>r\<close>, Cube \<open>r \<cdot> max(|sin \<theta>|, |cos \<phi>|)\<close>,
  Cone \<open>r \<cdot> (1 - \<phi>/\<pi>)\<close>, Cylinder \<open>r \<cdot> sin \<phi>\<close>, Torus \<open>r + 0.3 r \<cdot> cos \<phi>\<close>,
  Parabola \<open>r \<cdot> (1 - (2\<phi>/\<pi> - 1)\<^sup>2)\<close>; each is reached under its key of the table.
\<close>

theorem shape_profile_formulas:
  "call_sdf ''Sphere'' theta phi r = Inr (Number (Num r)) \<and>
   call_sdf ''Cube'' theta phi r = Inr (Number (Num (r * max \<bar>sin theta\<bar> \<bar>cos phi\<bar>))) \<and>
   call_sdf ''Cone'' theta phi r = Inr (Number (Num (r * (1 - phi / pi)))) \<and>
   call_sdf ''Cylinder'' theta phi r = Inr (Number (Num (r * sin phi))) \<and>
   call_sdf ''Torus'' theta phi r = Inr (Number (Num (r + 0.3 * r * cos phi))) \<and>
   call_sdf ''Parabola'' theta phi r = Inr (Number (Num (r * (1 - (2 * phi / pi - 1) ^ 2))))"
  by (simp add: call_sdf_def shapeSDFs_keys)

section \<open>The field evaluator\<close>

text \<open>
  Claim C4. For all angles, every property cell and every time, \<open>combinedSDF\<close> returns
  the current shape's profile radius when no interpolation is registered, and the
  \<open>lerp\<close> of the two profiles' radii at the stored progress when one is, in both cases
  plus \<open>sin(\<theta> \<cdot> rugosity + time) \<cdot> anisotropy \<cdot> 10 + cos(\<phi> \<cdot> sphericity + time) \<cdot> convexity \<cdot> 5\<close>;
  the sum is returned as it is, without clamping.
\<close>

theorem combinedSDF_formula:
  "(shapeSDFs_own (currentShape (config s)) = Some c \<and> shapeInterpolation (config s) = None \<longrightarrow>
      combinedSDF s theta phi (Some cell) t =
        Inr (Number (Num (sdf c theta phi (radius (config s)) +
                          (sin (theta * rugosity cell + t) * anisotropy cell * 10 +
                           cos (phi * sphericity cell + t) * convexity cell * 5))))) \<and>
   (shapeSDFs_own (currentShape (config s)) = Some c \<and> shapeInterpolation (config s) = Some si \<and>
    shapeSDFs_own (from_shape si) = Some f \<and> shapeSDFs_own (to_shape si) = Some g \<longrightarrow>
      combinedSDF s theta phi (Some cell) t =
        Inr (Number (js_add (lerp (Num (sdf f theta phi (radius (config s))))
                                  (Num (sdf g theta phi (radius (config s))))
                                  (progress (shapeTransition (scalarField s))))
                            (Num (sin (theta * rugosity cell + t) * anisotropy cell * 10 +
                                  cos (phi * sphericity cell + t) * convexity cell * 5)))))"
  by (simp add: combinedSDF_def call_sdf_own)



text \<open>
  Three evaluations: the result exceeds the base radius (105 for radius 100), it is
  negative (-4 for radius 1), and half-way from Sphere to Cube it is the mean of the two
  radii (50).
\<close>

theorem combinedSDF_formula_witness:
  "combinedSDF demo_engine 0 0 (Some (generatePropertyCell (1 / 2) (1 / 2))) 0 = Inr (Number (Num 105)) \<and>
   radius (config demo_engine) = 100 \<and>
   combinedSDF (demo_engine\<lparr>config := (config demo_engine)\<lparr>radius := 1\<rparr>\<rparr>) 0 0
      (Some (generatePropertyCell (1 / 2) (1 / 2))) pi = Inr (Number (Num (- 4))) \<and>
   combinedSDF (snd (update 1 (morphToShape ''Cube'' (Some 2) demo_engine))) 0 (pi / 2)
      (Some (generatePropertyCell (1 / 2) (1 / 2))) 0 = Inr (Number (Num 50))"
proof -
  let ?cell = "generatePropertyCell (1 / 2) (1 / 2)"
  let ?small = "demo_engine\<lparr>config := (config demo_engine)\<lparr>radius := 1\<rparr>\<rparr>"
  let ?m = "snd (update 1 (morphToShape ''Cube'' (Some 2) demo_engine))"
  let ?si = "\<lparr> from_shape = ''Sphere'', to_shape = ''Cube'', duration = 2 \<rparr>"
  have a: "combinedSDF demo_engine 0 0 (Some ?cell) 0 = Inr (Number (Num 105))"
    using combinedSDF_formula [of demo_engine Sphere 0 0 ?cell 0]
    by (simp add: demo_config shapeSDFs_own_def generatePropertyCell_def)
  have b: "combinedSDF ?small 0 0 (Some ?cell) pi = Inr (Number (Num (- 4)))"
    using combinedSDF_formula [of ?small Sphere 0 0 ?cell pi]
    by (simp add: demo_config shapeSDFs_own_def generatePropertyCell_def)
  have m_cfg: "config ?m = (config demo_engine)\<lparr>shapeInterpolation := Some ?si, currentShape := ''Cube''\<rparr>"
    by (simp add: update_config morphToShape_def shapeSDFs_keys demo_config tick_def Let_def
        js_div_def demo_scalarField)
  have m_prog: "progress (shapeTransition (scalarField ?m)) = Num (1 / 2)"
    by (simp add: update_scalarField morphToShape_def shapeSDFs_keys demo_config tick_def Let_def
        js_div_def demo_scalarField)
  have c: "combinedSDF ?m 0 (pi / 2) (Some ?cell) 0 = Inr (Number (Num 50))"
    using combinedSDF_formula [where s = ?m and c = Cube and si = ?si and f = Sphere and g = Cube
        and theta = 0 and phi = "pi / 2" and cell = ?cell and t = 0]
    by (simp add: m_cfg m_prog demo_config shapeSDFs_own_def generatePropertyCell_def lerp_Num)
  show ?thesis using a b c by (simp add: demo_config)
qed


section \<open>The evolution flag\<close>

text \<open>
  Claim C6, evaluated on the code. A geometry constructed with \<open>dynamicEvolution: false\<close>
  has the flag set to true (\<open>config.dynamicEvolution || true\<close>), and \<open>update(1)\<close> advances
  its time from 0 to 0.5.
\<close>

theorem update_with_flag_false_not_noop:
  "opt_dynamicEvolution flag_off_options = Some False \<and>
   new_geometry (Some 100) (Some 1) flag_off_options demo_random = Inr flag_off_engine \<and>
   dynamicEvolution (config flag_off_engine) \<and>
   time (scalarField flag_off_engine) = 0 \<and>
   time (scalarField (snd (update 1 flag_off_engine))) = 1 / 2"
proof -
  have sw: "sweep (init_engine (Some 100) (Some 1) flag_off_options demo_random) [0..<1] empty_buffers
              = Inr demo_buffers"
    by (simp add: push_vertex_def select_props_def lookupX_def lookupY_def vertex_theta_def
        vertex_phi_def init_engine_def init_config_def flag_off_options_def
        initializePropertyMatrix_def js_index_def combinedSDF_def call_sdf_def shapeSDFs_keys
        generatePropertyCell_def empty_buffers_def Let_def demo_buffers_def demo_random_def)
  have built: "new_geometry (Some 100) (Some 1) flag_off_options demo_random = Inr flag_off_engine"
    using sw
    by (simp add: new_geometry_def flag_off_engine_def generateScalarFieldGeometry_def
        init_engine_def init_config_def flag_off_options_def Let_def)
  have cfg: "dynamicEvolution (config flag_off_engine)" "morphSpeed (config flag_off_engine) = 1 / 2"
    by (simp_all add: flag_off_engine_def init_engine_def init_config_def flag_off_options_def Let_def)
  have t0: "time (scalarField flag_off_engine) = 0"
    by (simp add: flag_off_engine_def init_engine_def Let_def)
  show ?thesis
    using built cfg t0 by (simp add: update_time flag_off_options_def)
qed


section \<open>Morph requests\<close>

text \<open>
  Claim C1 as stated fails: \<open>morphToShape("Cube", 0.0)\<close> on a freshly constructed Sphere
  geometry is not rejected; it changes \<open>currentShape\<close> and registers an interpolation
  of duration 0.
\<close>

theorem morph_nonpositive_duration_counterexample:
  "new_geometry (Some 100) (Some 1) demo_options demo_random = Inr demo_engine \<and>
   currentShape (config demo_engine) = ''Sphere'' \<and>
   shapeInterpolation (config demo_engine) = None \<and>
   currentShape (config (morphToShape ''Cube'' (Some 0) demo_engine)) = ''Cube'' \<and>
   shapeInterpolation (config (morphToShape ''Cube'' (Some 0) demo_engine)) =
     Some \<lparr> from_shape = ''Sphere'', to_shape = ''Cube'', duration = 0 \<rparr> \<and>
   logged (morphToShape ''Cube'' (Some 0) demo_engine) =
     logged demo_engine @ [(Info, ''Shape Morphing Initiated'')]"
  using demo_constructed by (simp add: demo_config morphToShape_accepts shapeSDFs_keys)

text \<open>
  Claim C1, amended. \<open>morphToShape\<close> has no check of the duration: a request with a
  duration \<open>\<le> 0\<close> for one of the six library shapes is accepted like any other. It
  registers the interpolation from the current shape to the target with that duration,
  resets the progress to 0, makes the target the current shape and logs the start; the
  time, the property matrix and the attribute buffer are unchanged.
\<close>

theorem morph_nonpositive_duration_accepted:
  assumes "shapeSDFs_own targetShape = Some f" and "d \<le> 0"
  shows "config (morphToShape targetShape (Some d) s) =
           (config s)\<lparr> shapeInterpolation :=
                          Some \<lparr> from_shape = currentShape (config s), to_shape = targetShape,
                                 duration = d \<rparr>,
                        currentShape := targetShape \<rparr> \<and>
         shapeTransition (scalarField (morphToShape targetShape (Some d) s)) =
           \<lparr> transition_from = Some (currentShape (config s)), transition_to = Some targetShape,
             progress = Num 0 \<rparr> \<and>
         time (scalarField (morphToShape targetShape (Some d) s)) = time (scalarField s) \<and>
         propertyMatrix (morphToShape targetShape (Some d) s) = propertyMatrix s \<and>
         attributes (morphToShape targetShape (Some d) s) = attributes s \<and>
         logged (morphToShape targetShape (Some d) s) =
           logged s @ [(Info, ''Shape Morphing Initiated'')]"
  using assms(1) by (simp add: morphToShape_accepts shapeSDFs_of_own)

theorem morph_nonpositive_duration_accepted_witness:
  "shapeSDFs_own ''Cube'' = Some Cube \<and> (0::real) \<le> 0 \<and>
   config (morphToShape ''Cube'' (Some 0) demo_engine) =
     \<lparr> radius = 100, polygonCount = 1, gridWidth = 1, gridHeight = 1, morphSpeed = 0.5,
       dynamicEvolution = True, currentShape = ''Cube'',
       shapeInterpolation = Some \<lparr> from_shape = ''Sphere'', to_shape = ''Cube'', duration = 0 \<rparr> \<rparr> \<and>
   shapeTransition (scalarField (morphToShape ''Cube'' (Some 0) demo_engine)) =
     \<lparr> transition_from = Some ''Sphere'', transition_to = Some ''Cube'', progress = Num 0 \<rparr> \<and>
   attributes (morphToShape ''Cube'' (Some 0) demo_engine) = Some demo_buffers"
  using morph_nonpositive_duration_accepted [of "''Cube''" Cube 0 demo_engine]
  by (simp add: shapeSDFs_own_keys demo_config demo_attributes)

text \<open>
  Claim C2 as stated fails: the lookup of \<open>getShapeParameters\<close> falls back to the Sphere
  profile for an identifier that is not in the library.
\<close>

theorem unknown_shape_lookup_counterexample:
  "shapeSDFs_own ''Nonexistent'' = None \<and>
   sdfFunction (getShapeParameters ''Nonexistent'') = SdfFunction Sphere"
  by (simp add: getShapeParameters_def shapeSDFs_def shapeSDFs_own_def object_prototype_keys_def)

text \<open>
  Claim C2, amended. For every identifier that names no property of the profile table
  (none of the six keys and no member inherited from \<open>Object.prototype\<close>), a morph request
  only logs the error \<open>Invalid Shape Morphing Target\<close>: the configuration (with
  \<open>currentShape\<close> and the registered interpolation), the scalar field (with the
  transition) and the attribute buffer are unchanged. \<open>getShapeParameters\<close> answers such
  an identifier with the Sphere profile.
\<close>

theorem unknown_shape_morph_rejected:
  assumes "shapeSDFs targetShape = Undefined"
  shows "morphToShape targetShape d s = log_call Error ''Invalid Shape Morphing Target'' s \<and>
         config (morphToShape targetShape d s) = config s \<and>
         scalarField (morphToShape targetShape d s) = scalarField s \<and>
         attributes (morphToShape targetShape d s) = attributes s \<and>
         logged (morphToShape targetShape d s) =
           logged s @ [(Error, ''Invalid Shape Morphing Target'')] \<and>
         sdfFunction (getShapeParameters targetShape) = SdfFunction Sphere"
  using assms by (simp add: morphToShape_rejects getShapeParameters_def shapeSDFs_keys)

theorem unknown_shape_morph_rejected_witness:
  "shapeSDFs ''Nonexistent'' = Undefined \<and>
   currentShape (config (morphToShape ''Nonexistent'' (Some 1) demo_engine)) = ''Sphere'' \<and>
   shapeInterpolation (config (morphToShape ''Nonexistent'' (Some 1) demo_engine)) = None \<and>
   scalarField (morphToShape ''Nonexistent'' (Some 1) demo_engine) = scalarField demo_engine \<and>
   logged (morphToShape ''Nonexistent'' (Some 1) demo_engine) =
     logged demo_engine @ [(Error, ''Invalid Shape Morphing Target'')]"
proof -
  have u: "shapeSDFs ''Nonexistent'' = Undefined"
    by (simp add: shapeSDFs_def shapeSDFs_own_def object_prototype_keys_def)
  show ?thesis
    using unknown_shape_morph_rejected [OF u, of "Some 1" demo_engine] u
    by (simp add: demo_config)
qed

text \<open>
  The validation of \<open>morphToShape\<close> tests the truthiness of a property read, which
  also succeeds for the names every object inherits: such a name is accepted as a target.
\<close>

lemma inherited_name_accepted:
  "shapeSDFs_own ''constructor'' = None \<and>
   currentShape (config (morphToShape ''constructor'' (Some 1) demo_engine)) = ''constructor''"
  by (simp add: morphToShape_accepts shapeSDFs_def shapeSDFs_own_def object_prototype_keys_def)

section \<open>The transition state machine\<close>

text \<open>
  Claim C3. From an idle geometry with current shape Sphere, \<open>morphToShape("Cube", 2.0)\<close>
  followed by \<open>update(1.0)\<close> gives progress 0.5 with the interpolation still registered;
  a further \<open>update(1.0)\<close> gives progress 1, clears the interpolation and leaves
  \<open>currentShape = "Cube"\<close>. In general an update of an evolving geometry with a registered
  interpolation (of a duration other than 0, so that the quotient is a real number) sets
  the progress \<open>p\<close> to \<open>min(1, p + deltaTime/duration)\<close>, and clears the interpolation
  exactly when that value is 1.
\<close>

theorem morph_then_tick:
  "(dynamicEvolution (config s) \<and> currentShape (config s) = ''Sphere'' \<and>
    shapeInterpolation (config s) = None \<longrightarrow>
      (let s1 = morphToShape ''Cube'' (Some 2) s;
           s2 = snd (update 1 s1);
           s3 = snd (update 1 s2)
       in progress (shapeTransition (scalarField s1)) = Num 0 \<and>
          progress (shapeTransition (scalarField s2)) = Num (1 / 2) \<and>
          shapeInterpolation (config s2) =
            Some \<lparr> from_shape = ''Sphere'', to_shape = ''Cube'', duration = 2 \<rparr> \<and>
          progress (shapeTransition (scalarField s3)) = Num 1 \<and>
          shapeInterpolation (config s3) = None \<and>
          currentShape (config s3) = ''Cube'')) \<and>
   (dynamicEvolution (config t) \<and> shapeInterpolation (config t) = Some si \<and>
    duration si \<noteq> 0 \<and> progress (shapeTransition (scalarField t)) = Num p \<longrightarrow>
      progress (shapeTransition (scalarField (snd (update dt t)))) =
        Num (min 1 (p + dt / duration si)) \<and>
      shapeInterpolation (config (snd (update dt t))) =
        (if 1 \<le> p + dt / duration si then None else Some si) \<and>
      currentShape (config (snd (update dt t))) = currentShape (config t))"
proof (intro conjI impI)
  assume a: "dynamicEvolution (config s) \<and> currentShape (config s) = ''Sphere'' \<and>
    shapeInterpolation (config s) = None"
  let ?si = "\<lparr> from_shape = ''Sphere'', to_shape = ''Cube'', duration = 2 \<rparr>"
  let ?s1 = "morphToShape ''Cube'' (Some 2) s"
  let ?s2 = "snd (update 1 ?s1)"
  let ?s3 = "snd (update 1 ?s2)"
  have s1: "dynamicEvolution (config ?s1)" "shapeInterpolation (config ?s1) = Some ?si"
    "progress (shapeTransition (scalarField ?s1)) = Num 0" "currentShape (config ?s1) = ''Cube''"
    using a by (simp_all add: morphToShape_accepts shapeSDFs_keys)
  have s2: "progress (shapeTransition (scalarField ?s2)) = Num (1 / 2)"
    "shapeInterpolation (config ?s2) = Some ?si" "currentShape (config ?s2) = ''Cube''"
    using update_progress [OF s1(1) s1(2), of 1] s1(3,4) by (simp_all add: js_div_def)
  have d2: "dynamicEvolution (config ?s2)"
    using s1(1) by simp
  have s3: "progress (shapeTransition (scalarField ?s3)) = Num 1"
    "shapeInterpolation (config ?s3) = None" "currentShape (config ?s3) = ''Cube''"
    using update_progress [OF d2 s2(2), of 1] s2(1,3) by (simp_all add: js_div_def)
  show "let s1 = morphToShape ''Cube'' (Some 2) s;
           s2 = snd (update 1 s1);
           s3 = snd (update 1 s2)
       in progress (shapeTransition (scalarField s1)) = Num 0 \<and>
          progress (shapeTransition (scalarField s2)) = Num (1 / 2) \<and>
          shapeInterpolation (config s2) =
            Some \<lparr> from_shape = ''Sphere'', to_shape = ''Cube'', duration = 2 \<rparr> \<and>
          progress (shapeTransition (scalarField s3)) = Num 1 \<and>
          shapeInterpolation (config s3) = None \<and>
          currentShape (config s3) = ''Cube''"
    unfolding Let_def using s1(3) s2(1,2) s3 by simp
next
  assume b: "dynamicEvolution (config t) \<and> shapeInterpolation (config t) = Some si \<and>
    duration si \<noteq> 0 \<and> progress (shapeTransition (scalarField t)) = Num p"
  then have d: "dynamicEvolution (config t)" and i: "shapeInterpolation (config t) = Some si"
    by simp_all
  show "progress (shapeTransition (scalarField (snd (update dt t)))) =
        Num (min 1 (p + dt / duration si))"
    using update_progress(1) [OF d i, of dt] b by (simp add: js_div_def min.commute)
  show "shapeInterpolation (config (snd (update dt t))) =
        (if 1 \<le> p + dt / duration si then None else Some si)"
    using update_progress(2) [OF d i, of dt] b by (simp add: js_div_def)
  show "currentShape (config (snd (update dt t))) = currentShape (config t)"
    using update_progress(3) [OF d i, of dt] by simp
qed

theorem morph_then_tick_witness:
  "dynamicEvolution (config demo_engine) \<and> currentShape (config demo_engine) = ''Sphere'' \<and>
   shapeInterpolation (config demo_engine) = None \<and>
   progress (shapeTransition (scalarField
      (snd (update 1 (morphToShape ''Cube'' (Some 2) demo_engine))))) = Num (1 / 2) \<and>
   shapeInterpolation (config (snd (update 1 (morphToShape ''Cube'' (Some 2) demo_engine)))) =
      Some \<lparr> from_shape = ''Sphere'', to_shape = ''Cube'', duration = 2 \<rparr> \<and>
   progress (shapeTransition (scalarField
      (snd (update 1 (snd (update 1 (morphToShape ''Cube'' (Some 2) demo_engine))))))) = Num 1 \<and>
   shapeInterpolation (config
      (snd (update 1 (snd (update 1 (morphToShape ''Cube'' (Some 2) demo_engine)))))) = None \<and>
   currentShape (config
      (snd (update 1 (snd (update 1 (morphToShape ''Cube'' (Some 2) demo_engine)))))) = ''Cube'' \<and>
   progress (shapeTransition (scalarField
      (snd (update (1 / 2) (snd (update 1 (morphToShape ''Cube'' (Some 2) demo_engine))))))) =
      Num (3 / 4)"
proof -
  let ?si = "\<lparr> from_shape = ''Sphere'', to_shape = ''Cube'', duration = 2 \<rparr>"
  let ?s2 = "snd (update 1 (morphToShape ''Cube'' (Some 2) demo_engine))"
  have scen: "progress (shapeTransition (scalarField ?s2)) = Num (1 / 2) \<and>
      shapeInterpolation (config ?s2) = Some ?si \<and>
      progress (shapeTransition (scalarField (snd (update 1 ?s2)))) = Num 1 \<and>
      shapeInterpolation (config (snd (update 1 ?s2))) = None \<and>
      currentShape (config (snd (update 1 ?s2))) = ''Cube''"
    using morph_then_tick [where s = demo_engine, THEN conjunct1]
    by (simp add: demo_config Let_def)
  have d: "dynamicEvolution (config ?s2)"
    by (simp add: morphToShape_accepts shapeSDFs_keys demo_config)
  have "progress (shapeTransition (scalarField (snd (update (1 / 2) ?s2)))) = Num (3 / 4)"
    using morph_then_tick [where t = ?s2 and si = ?si and p = "1 / 2" and dt = "1 / 2",
        THEN conjunct2] scen d
    by simp
  with scen show ?thesis by (simp add: demo_config)
qed


text \<open>
  Claim C8 as stated fails. On a freshly constructed geometry, a morph request of
  duration -1 followed by \<open>update(1)\<close> leaves the progress at -1; a request of duration 2
  followed by \<open>update(-1)\<close> leaves it at -0.5; a request of duration 0 followed by
  \<open>update(0)\<close> leaves it at NaN.
\<close>

theorem progress_outside_unit_interval_counterexample:
  "new_geometry (Some 100) (Some 1) demo_options demo_random = Inr demo_engine \<and>
   progress (shapeTransition (scalarField
     (run [MorphToShape ''Cube'' (Some (- 1)), Update 1] demo_engine))) = Num (- 1) \<and>
   progress (shapeTransition (scalarField
     (run [MorphToShape ''Cube'' (Some 2), Update (- 1)] demo_engine))) = Num (- 1 / 2) \<and>
   progress (shapeTransition (scalarField
     (run [MorphToShape ''Cube'' (Some 0), Update 0] demo_engine))) = NaN \<and>
   \<not> transition_valid (run [MorphToShape ''Cube'' (Some (- 1)), Update 1] demo_engine)"
proof -
  have m: "\<And>d. dynamicEvolution (config (morphToShape ''Cube'' (Some d) demo_engine))"
    "\<And>d. shapeInterpolation (config (morphToShape ''Cube'' (Some d) demo_engine)) =
       Some \<lparr> from_shape = ''Sphere'', to_shape = ''Cube'', duration = d \<rparr>"
    "\<And>d. progress (shapeTransition (scalarField (morphToShape ''Cube'' (Some d) demo_engine))) = Num 0"
    by (simp_all add: morphToShape_accepts shapeSDFs_keys demo_config)
  have a: "progress (shapeTransition (scalarField
     (run [MorphToShape ''Cube'' (Some (- 1)), Update 1] demo_engine))) = Num (- 1)"
    using update_progress(1) [OF m(1) m(2), where dt = 1 and d1 = "- 1"] by (simp add: m(3) js_div_def)
  have b: "progress (shapeTransition (scalarField
     (run [MorphToShape ''Cube'' (Some 2), Update (- 1)] demo_engine))) = Num (- 1 / 2)"
    using update_progress(1) [OF m(1) m(2), where dt = "- 1" and d1 = 2] by (simp add: m(3) js_div_def)
  have c: "progress (shapeTransition (scalarField
     (run [MorphToShape ''Cube'' (Some 0), Update 0] demo_engine))) = NaN"
    using update_progress(1) [OF m(1) m(2), where dt = 0 and d1 = 0] by (simp add: m(3) js_div_def)
  have d: "\<not> transition_valid (run [MorphToShape ''Cube'' (Some (- 1)), Update 1] demo_engine)"
    using a by (simp add: transition_valid_def)
  show ?thesis using demo_constructed a b c d by simp
qed

text \<open>
  Claim C8, amended. On a constructed geometry, after every sequence of morph requests
  with a positive (or default) duration and of updates with a non-negative
  \<open>deltaTime\<close>, the progress is in \<open>[0,1]\<close>, and an interpolation that is still
  registered has a progress below 1: none is left registered after its completion.
\<close>

theorem progress_stays_in_unit_interval:
  assumes "new_geometry r n opts random = Inr s0" and "list_all admissible ops"
  shows "transition_valid (run ops s0)"
proof -
  have "transition_valid s0 \<and> (\<forall>si. shapeInterpolation (config s0) = Some si \<longrightarrow> 0 < duration si)"
    using new_geometry_fields(1,2) [OF assms(1)]
    by (simp add: transition_valid_def init_config_idle)
  from transition_valid_run [OF this assms(2)] show ?thesis by simp
qed

theorem progress_stays_in_unit_interval_witness:
  "new_geometry (Some 100) (Some 1) demo_options demo_random = Inr demo_engine \<and>
   list_all admissible [MorphToShape ''Cube'' (Some 2), Update 1, MorphToShape ''Cone'' None, Update 1] \<and>
   transition_valid
     (run [MorphToShape ''Cube'' (Some 2), Update 1, MorphToShape ''Cone'' None, Update 1] demo_engine)"
  using progress_stays_in_unit_interval [OF demo_constructed,
      of "[MorphToShape ''Cube'' (Some 2), Update 1, MorphToShape ''Cone'' None, Update 1]"]
    demo_constructed
  by simp


section \<open>The attribute buffer builder\<close>

text \<open>
  Claim C9. For every vertex index \<open>i < polygonCount\<close> and grid dimensions of at least 1,
  the grid coordinates \<open>gridX\<close>, \<open>gridY\<close> derived from the vertex angles, and the indices
  used for the matrix read after \<open>Math.min\<close>, lie in \<open>[0, gridWidth - 1]\<close> and
  \<open>[0, gridHeight - 1]\<close>; on a matrix of these dimensions the read finds a cell.
\<close>

theorem grid_lookup_in_bounds:
  assumes "i < polygonCount (config s)"
    and "1 \<le> gridWidth (config s)" and "1 \<le> gridHeight (config s)"
  shows "0 \<le> \<lfloor>vertex_theta s i / (pi * 2) * real (gridWidth (config s))\<rfloor> \<and>
         \<lfloor>vertex_theta s i / (pi * 2) * real (gridWidth (config s))\<rfloor> \<le> int (gridWidth (config s)) - 1 \<and>
         0 \<le> \<lfloor>vertex_phi s i / pi * real (gridHeight (config s))\<rfloor> \<and>
         \<lfloor>vertex_phi s i / pi * real (gridHeight (config s))\<rfloor> \<le> int (gridHeight (config s)) - 1 \<and>
         0 \<le> lookupX s i \<and> lookupX s i \<le> int (gridWidth (config s)) - 1 \<and>
         0 \<le> lookupY s i \<and> lookupY s i \<le> int (gridHeight (config s)) - 1 \<and>
         (matrix_matches_grid s \<longrightarrow>
            select_props s i =
              Inr (Some (propertyMatrix s ! nat (lookupX s i) ! nat (lookupY s i))))"
proof -
  let ?n = "polygonCount (config s)"
  let ?w = "gridWidth (config s)"
  let ?h = "gridHeight (config s)"
  have n: "?n \<noteq> 0" using assms(1) by simp
  have tx: "vertex_theta s i / (pi * 2) = real i / real ?n"
    unfolding vertex_theta_def using grid_fraction(1) [OF n] .
  have ty: "vertex_phi s i / pi = real i / real ?n"
    unfolding vertex_phi_def using grid_fraction(2) [OF n] .
  note fx = floor_scaled_fraction [OF assms(1) assms(2)]
  note fy = floor_scaled_fraction [OF assms(1) assms(3)]
  have x: "0 \<le> lookupX s i" "lookupX s i \<le> int ?w - 1"
    using fx assms(2) by (simp_all add: lookupX_def Let_def tx)
  have y: "0 \<le> lookupY s i" "lookupY s i \<le> int ?h - 1"
    using fy assms(3) by (simp_all add: lookupY_def Let_def ty)
  have sel: "select_props s i = Inr (Some (propertyMatrix s ! nat (lookupX s i) ! nat (lookupY s i)))"
    if m: "matrix_matches_grid s"
  proof -
    from m have len: "length (propertyMatrix s) = ?w"
      and rows: "\<forall>row \<in> set (propertyMatrix s). length row = ?h"
      by (simp_all add: matrix_matches_grid_def list_all_iff)
    have r: "js_index (propertyMatrix s) (lookupX s i) = Some (propertyMatrix s ! nat (lookupX s i))"
      using x len by (intro js_index_in_range) simp_all
    have "nat (lookupX s i) < length (propertyMatrix s)" using x len assms(2) by linarith
    then have "length (propertyMatrix s ! nat (lookupX s i)) = ?h" using rows by simp
    then have c: "js_index (propertyMatrix s ! nat (lookupX s i)) (lookupY s i) =
                    Some (propertyMatrix s ! nat (lookupX s i) ! nat (lookupY s i))"
      using y by (intro js_index_in_range) simp_all
    show ?thesis by (simp add: select_props_def r c)
  qed
  show ?thesis using fx fy x y sel by (simp add: tx ty)
qed

theorem grid_lookup_in_bounds_witness:
  "(3::nat) < polygonCount (config grid_engine) \<and>
   1 \<le> gridWidth (config grid_engine) \<and> 1 \<le> gridHeight (config grid_engine) \<and>
   matrix_matches_grid grid_engine \<and>
   gridWidth (config grid_engine) = 3 \<and> gridHeight (config grid_engine) = 2 \<and>
   lookupX grid_engine 3 = 2 \<and> lookupY grid_engine 3 = 1 \<and>
   0 \<le> lookupX grid_engine 3 \<and> lookupX grid_engine 3 \<le> 2 \<and>
   0 \<le> lookupY grid_engine 3 \<and> lookupY grid_engine 3 \<le> 1 \<and>
   select_props grid_engine 3 =
     Inr (Some (propertyMatrix grid_engine ! nat (lookupX grid_engine 3) ! nat (lookupY grid_engine 3)))"
proof -
  have cfg: "polygonCount (config grid_engine) = 4" "gridWidth (config grid_engine) = 3"
    "gridHeight (config grid_engine) = 2"
    by (simp_all add: grid_engine_def init_engine_def init_config_def grid_options_def Let_def)
  have m: "matrix_matches_grid grid_engine"
    by (simp add: matrix_matches_grid_def grid_engine_def init_engine_def Let_def
        initializePropertyMatrix_dims)
  have v: "lookupX grid_engine 3 = 2" "lookupY grid_engine 3 = 1"
    by (simp_all add: lookupX_def lookupY_def vertex_theta_def vertex_phi_def cfg)
  show ?thesis
    using grid_lookup_in_bounds [of 3 grid_engine] cfg m v by simp
qed


text \<open>
  Claim C7. If the loop body raises at some vertex, the earlier vertices having been
  processed, the sweep ends with that exception whatever vertices follow,
  \<open>generateScalarFieldGeometry\<close> logs it and passes it on to its caller, and the attribute
  buffer of the geometry is the one it had before the call.
\<close>

theorem rebuild_failure_keeps_buffer:
  assumes "i < polygonCount (config s)"
    and "sweep s [0..<i] empty_buffers = Inr b"
    and "push_vertex s i b = Inl e"
  shows "sweep s [0..<polygonCount (config s)] empty_buffers = Inl e \<and>
         generateScalarFieldGeometry s =
           (Some e, log_call Error ''SphericalCustomGeometry Generation Failed'' s) \<and>
         attributes (snd (generateScalarFieldGeometry s)) = attributes s"
proof -
  have "[0..<polygonCount (config s)] = [0..<i] @ i # [Suc i..<polygonCount (config s)]"
    using assms(1) by (metis less_imp_le_nat upt_add_eq_append le0 le_add_diff_inverse upt_conv_Cons add.left_neutral)
  then have f: "sweep s [0..<polygonCount (config s)] empty_buffers = Inl e"
    using assms(2,3) by (simp add: sweep_append)
  then show ?thesis by (simp add: generate_failure)
qed

theorem rebuild_failure_keeps_buffer_witness:
  "(0::nat) < polygonCount (config broken_engine) \<and>
   sweep broken_engine [0..<0] empty_buffers = Inr empty_buffers \<and>
   push_vertex broken_engine 0 empty_buffers = Inl NotAFunction \<and>
   fst (generateScalarFieldGeometry broken_engine) = Some NotAFunction \<and>
   attributes broken_engine = Some demo_buffers \<and>
   attributes (snd (generateScalarFieldGeometry broken_engine)) = Some demo_buffers"
proof -
  have blob: "shapeSDFs ''Blob'' = Undefined"
    by (simp add: shapeSDFs_def shapeSDFs_own_def object_prototype_keys_def)
  have p: "push_vertex broken_engine 0 empty_buffers = Inl NotAFunction"
    by (simp add: push_vertex_def select_props_def lookupX_def lookupY_def vertex_theta_def
        vertex_phi_def js_index_def combinedSDF_def call_sdf_def blob broken_fields Let_def)
  have z: "sweep broken_engine [0..<0] empty_buffers = Inr empty_buffers" by simp
  have n: "0 < polygonCount (config broken_engine)" by (simp add: broken_fields)
  show ?thesis
    using rebuild_failure_keeps_buffer [OF n z p] n z p by (simp add: broken_fields)
qed

text \<open>
  Claim C10. A second rebuild directly after a first one ends the same way and leaves
  the same attribute buffer; and two geometries that agree on the configuration, the
  property matrix and the scalar field (its time and its transition progress) are
  rebuilt to the same buffer.
\<close>

theorem rebuild_idempotent:
  "fst (generateScalarFieldGeometry (snd (generateScalarFieldGeometry s))) =
     fst (generateScalarFieldGeometry s) \<and>
   attributes (snd (generateScalarFieldGeometry (snd (generateScalarFieldGeometry s)))) =
     attributes (snd (generateScalarFieldGeometry s)) \<and>
   (config s1 = config s2 \<and> propertyMatrix s1 = propertyMatrix s2 \<and>
    scalarField s1 = scalarField s2 \<and> fst (generateScalarFieldGeometry s1) = None \<longrightarrow>
      fst (generateScalarFieldGeometry s2) = None \<and>
      attributes (snd (generateScalarFieldGeometry s1)) =
        attributes (snd (generateScalarFieldGeometry s2)))"
proof (intro conjI impI)
  let ?s' = "snd (generateScalarFieldGeometry s)"
  have same: "config ?s' = config s" "propertyMatrix ?s' = propertyMatrix s"
    "scalarField ?s' = scalarField s"
    by simp_all
  show first: "fst (generateScalarFieldGeometry ?s') = fst (generateScalarFieldGeometry s)"
    by (rule generate_inputs(1) [OF same])
  show "attributes (snd (generateScalarFieldGeometry ?s')) = attributes ?s'"
  proof (cases "sweep s [0..<polygonCount (config s)] empty_buffers")
    case (Inl e)
    then have "sweep ?s' [0..<polygonCount (config ?s')] empty_buffers = Inl e"
      using sweep_inputs [OF same] by simp
    then show ?thesis by (simp add: generate_failure)
  next
    case (Inr b)
    then have "sweep ?s' [0..<polygonCount (config ?s')] empty_buffers = Inr b"
      using sweep_inputs [OF same] by simp
    then show ?thesis using Inr by (simp add: generate_success)
  qed
next
  assume a: "config s1 = config s2 \<and> propertyMatrix s1 = propertyMatrix s2 \<and>
    scalarField s1 = scalarField s2 \<and> fst (generateScalarFieldGeometry s1) = None"
  then have eq: "config s1 = config s2" "propertyMatrix s1 = propertyMatrix s2"
    "scalarField s1 = scalarField s2" and ok: "fst (generateScalarFieldGeometry s1) = None"
    by simp_all
  show "fst (generateScalarFieldGeometry s2) = None"
    using generate_inputs(1) [OF eq] ok by simp
  show "attributes (snd (generateScalarFieldGeometry s1)) =
        attributes (snd (generateScalarFieldGeometry s2))"
    by (rule generate_inputs(2) [OF eq ok])
qed

theorem rebuild_idempotent_witness:
  "config demo_engine = config (demo_engine\<lparr>attributes := None, logged := []\<rparr>) \<and>
   propertyMatrix demo_engine = propertyMatrix (demo_engine\<lparr>attributes := None, logged := []\<rparr>) \<and>
   scalarField demo_engine = scalarField (demo_engine\<lparr>attributes := None, logged := []\<rparr>) \<and>
   fst (generateScalarFieldGeometry demo_engine) = None \<and>
   attributes (snd (generateScalarFieldGeometry demo_engine)) = Some demo_buffers \<and>
   attributes (snd (generateScalarFieldGeometry (demo_engine\<lparr>attributes := None, logged := []\<rparr>))) =
     Some demo_buffers \<and>
   attributes (snd (generateScalarFieldGeometry (snd (generateScalarFieldGeometry demo_engine)))) =
     Some demo_buffers"
proof -
  have g: "generateScalarFieldGeometry demo_engine =
      (None, log_call Info ''SphericalCustomGeometry Generated''
               (demo_engine\<lparr>attributes := Some demo_buffers\<rparr>))"
    by (rule generate_success [OF demo_regenerate])
  let ?other = "demo_engine\<lparr>attributes := None, logged := []\<rparr>"
  note r = rebuild_idempotent [where s = demo_engine and ?s1.0 = demo_engine and ?s2.0 = ?other]
  have f: "fst (generateScalarFieldGeometry demo_engine) = None" by (simp add: g)
  have a: "attributes (snd (generateScalarFieldGeometry demo_engine)) = Some demo_buffers"
    by (simp add: g)
  have twice: "attributes (snd (generateScalarFieldGeometry (snd (generateScalarFieldGeometry demo_engine)))) =
      Some demo_buffers"
    using r [THEN conjunct2, THEN conjunct1] a by (simp only:)
  have eq: "config demo_engine = config ?other \<and> propertyMatrix demo_engine = propertyMatrix ?other \<and>
      scalarField demo_engine = scalarField ?other"
    by simp
  have "attributes (snd (generateScalarFieldGeometry demo_engine)) =
      attributes (snd (generateScalarFieldGeometry ?other))"
    using r [THEN conjunct2, THEN conjunct2] eq f by blast
  then have other: "attributes (snd (generateScalarFieldGeometry ?other)) = Some demo_buffers"
    using a by (simp only:)
  show ?thesis
    using eq f a twice other by blast
qed

end
